theory Spec2Isabelle
  imports Main
begin

section \<open>Data model of \<^verbatim>\<open>accounts-store.ts\<close>\<close>

text \<open>
  Everything a JavaScript \<^verbatim>\<open>throw\<close> can carry in this file: a plain \<^verbatim>\<open>Error\<close> (a failure
  of the credential store, of the network, or \<^verbatim>\<open>fatalError\<close>), the \<^verbatim>\<open>TypeError\<close> of a
  property read on \<^verbatim>\<open>undefined\<close>, and the \<^verbatim>\<open>SyntaxError\<close> of \<^verbatim>\<open>JSON.parse\<close>.
\<close>

datatype error = Error string | TypeError string | SyntaxError string

text \<open>
  Modelled from the spec: the type \<^verbatim>\<open>EmailVisibility\<close> of the field \<open>visibility\<close> is declared
  in \<^verbatim>\<open>lib/api\<close>, whose source is not available; the store never inspects it, so it is kept
  as an opaque string. The rest is the interface \<^verbatim>\<open>IEmail\<close> of lines 10-26.
\<close>

record iemail =
  email :: string
  verified :: bool
  primary :: bool
  visibility :: string

text \<open>
  The interface \<^verbatim>\<open>IAccount\<close> of lines 29-37, which is also the shape of an \<^verbatim>\<open>Account\<close>. The
  field \<^verbatim>\<open>id\<close> is called \<open>account_id\<close> here, as \<open>id\<close> is the identity function of HOL; it
  is an integer assigned by the remote service.
\<close>

record account =
  token :: string
  login :: string
  endpoint :: string
  emails :: "iemail list"
  avatarURL :: string
  account_id :: int
  name :: string

type_synonym iaccount = account

text \<open>
  Modelled from the spec: the class \<^verbatim>\<open>Account\<close> is declared in \<^verbatim>\<open>models/account\<close>, whose
  source is not available. It is an immutable value with the seven fields of \<^verbatim>\<open>IAccount\<close>;
  the constructor takes them in the order
  \<^verbatim>\<open>new Account(login, endpoint, token, emails, avatarURL, id, name)\<close>, and \<^verbatim>\<open>withToken\<close>
  gives a new instance that differs in the token only.
\<close>

definition Account ::
  "string \<Rightarrow> string \<Rightarrow> string \<Rightarrow> iemail list \<Rightarrow> string \<Rightarrow> int \<Rightarrow> string \<Rightarrow> account" where
  "Account l e t ms av i n =
     \<lparr>token = t, login = l, endpoint = e, emails = ms, avatarURL = av, account_id = i, name = n\<rparr>"

definition withToken :: "account \<Rightarrow> string \<Rightarrow> account" where
  "withToken a t = Account (login a) (endpoint a) t (emails a) (avatarURL a) (account_id a) (name a)"

text \<open>The value of \<^verbatim>\<open>api.fetchAccount()\<close>, of which the store reads three fields.\<close>

record user =
  user_id :: int
  user_name :: string
  avatar_url :: string

text \<open>
  What the data store holds under a key is a string. The store only ever tests it for
  emptiness, parses it as JSON and writes the JSON text of an account list, so a stored
  string is represented by what these operations see of it: the empty string, a text that
  \<^verbatim>\<open>JSON.parse\<close> (or the iteration over its result) rejects, or the JSON text of a list of
  account records.
\<close>

datatype raw = EmptyString | Malformed | UsersJson "iaccount list"

definition JSON_stringify :: "account list \<Rightarrow> raw" where
  "JSON_stringify xs = UsersJson xs"

fun JSON_parse :: "raw \<Rightarrow> error + iaccount list" where
  "JSON_parse (UsersJson xs) = Inr xs"
| "JSON_parse Malformed = Inl (SyntaxError ''Unexpected token'')"
| "JSON_parse EmptyString = Inl (SyntaxError ''Unexpected end of JSON input'')"

text \<open>The two notifications of the emitter, in the order they are emitted.\<close>

datatype event = DidUpdate | DidError error

text \<open>
  The promise \<^verbatim>\<open>loadingPromise\<close>: settled (resolved or rejected), or still pending, in which
  case \<^verbatim>\<open>loadFromStore\<close> is suspended at the \<^verbatim>\<open>await\<close> of line 191 with the parsed records
  it has yet to process.
\<close>

datatype promise = Resolved | Rejected error | Pending "iaccount list"

text \<open>
  The fields of the class \<^verbatim>\<open>AccountsStore\<close> (lines 41-49), with the contents of the two stores
  it is given and the notifications emitted so far. The credential store maps a key and a
  user name to a secret.
\<close>

record accounts_store =
  dataStore :: "string \<rightharpoonup> raw"
  secureStore :: "string \<times> string \<rightharpoonup> string"
  accounts :: "account list"
  loadingPromise :: promise
  emitted :: "event list"

text \<open>
  Modelled from the spec: the collaborators that the store calls and whose source is not
  available, taken as parameters. \<^verbatim>\<open>getKeyForAccount\<close> (from \<^verbatim>\<open>lib/auth\<close>) derives the key
  deterministically from login and endpoint; \<^verbatim>\<open>API.fromAccount(account)\<close> gives a client whose
  \<^verbatim>\<open>fetchAccount\<close> and \<^verbatim>\<open>fetchEmails\<close> return a value or fail; the avatar resolver is a pure
  function of the avatar reference, the default email and the endpoint; each of the three
  operations of the credential store (\<^verbatim>\<open>ISecureStore\<close>, from \<^verbatim>\<open>./stores\<close>) either fails with
  an error, given here by the \<open>_failure\<close> fields, or does what its name says.
\<close>

record collaborators =
  keyFor :: "string \<Rightarrow> string \<Rightarrow> string"
  fetchAccount :: "account \<Rightarrow> error + user"
  fetchEmails :: "account \<Rightarrow> error + iemail list"
  getAvatarWithEnterpriseFallback :: "string \<Rightarrow> string \<Rightarrow> string \<Rightarrow> string"
  getItem_failure :: "string \<Rightarrow> string \<Rightarrow> error option"
  setItem_failure :: "string \<Rightarrow> string \<Rightarrow> error option"
  deleteItem_failure :: "string \<Rightarrow> string \<Rightarrow> error option"

definition getKeyForAccount :: "collaborators \<Rightarrow> account \<Rightarrow> string" where
  "getKeyForAccount c a = keyFor c (login a) (endpoint a)"

text \<open>
  Modelled from the spec: \<^verbatim>\<open>fatalError\<close> (from \<^verbatim>\<open>lib/fatal-error\<close>) is not part of the
  sources at hand; it never returns and signals the violation by throwing an \<^verbatim>\<open>Error\<close> with
  the message.
\<close>

definition fatalError :: "string \<Rightarrow> error + 'a" where
  "fatalError msg = Inl (Error msg)"

subsection \<open>The credential store\<close>

text \<open>
  Modelled from the spec: the three operations of \<^verbatim>\<open>ISecureStore\<close>, keyed by a key and a user
  name. \<^verbatim>\<open>getItem\<close> returns the secret or nothing, \<^verbatim>\<open>setItem\<close> stores a secret, \<^verbatim>\<open>deleteItem\<close>
  removes it; each fails on a store error and then leaves the store as it is.
\<close>

definition secure_getItem ::
  "collaborators \<Rightarrow> (string \<times> string \<rightharpoonup> string) \<Rightarrow> string \<Rightarrow> string \<Rightarrow> error + string option" where
  "secure_getItem c ss key un =
     (case getItem_failure c key un of Some e \<Rightarrow> Inl e | None \<Rightarrow> Inr (ss (key, un)))"

definition secure_setItem ::
  "collaborators \<Rightarrow> (string \<times> string \<rightharpoonup> string) \<Rightarrow> string \<Rightarrow> string \<Rightarrow> string
     \<Rightarrow> error + (string \<times> string \<rightharpoonup> string)" where
  "secure_setItem c ss key un secret =
     (case setItem_failure c key un of Some e \<Rightarrow> Inl e | None \<Rightarrow> Inr (ss((key, un) \<mapsto> secret)))"

definition secure_deleteItem ::
  "collaborators \<Rightarrow> (string \<times> string \<rightharpoonup> string) \<Rightarrow> string \<Rightarrow> string
     \<Rightarrow> error + (string \<times> string \<rightharpoonup> string)" where
  "secure_deleteItem c ss key un =
     (case deleteItem_failure c key un of Some e \<Rightarrow> Inl e | None \<Rightarrow> Inr (ss((key, un) := None)))"

section \<open>The operations of \<^verbatim>\<open>AccountsStore\<close>\<close>

text \<open>
  Every method is a function from the state of the store to its new state, with the
  value or the error of the promise it returns where it has one. A method runs to its end
  before the next one starts; the one computation that can be under way when a method is
  called is the initial load, which the field \<open>loadingPromise\<close> records.
\<close>

text \<open>Lines 57-63.\<close>

definition emitUpdate :: "accounts_store \<Rightarrow> accounts_store" where
  "emitUpdate s = s\<lparr>emitted := emitted s @ [DidUpdate]\<rparr>"

definition emitError :: "error \<Rightarrow> accounts_store \<Rightarrow> accounts_store" where
  "emitError e s = s\<lparr>emitted := emitted s @ [DidError e]\<rparr>"

text \<open>Lines 204-211.\<close>

definition save :: "accounts_store \<Rightarrow> accounts_store" where
  "save s =
     (let usersWithoutTokens = map (\<lambda>account. withToken account []) (accounts s)
      in emitUpdate (s\<lparr>dataStore := (dataStore s)(''users'' \<mapsto> JSON_stringify usersWithoutTokens)\<rparr>))"

text \<open>
  Lines 214-241. \<^verbatim>\<open>emails[0]\<close> is \<^verbatim>\<open>undefined\<close> when the fetched list is empty, and reading
  \<^verbatim>\<open>.email\<close> of it throws a \<^verbatim>\<open>TypeError\<close>; \<^verbatim>\<open>x || ''\<close> is \<^verbatim>\<open>x\<close> unless \<^verbatim>\<open>x\<close> is empty. The
  message of \<^verbatim>\<open>fatalError\<close> ends with the printed account, which is left out.
\<close>

definition updatedAccount :: "collaborators \<Rightarrow> account \<Rightarrow> error + account" where
  "updatedAccount c account =
     (if token account = [] then
        fatalError ''Cannot update an account which doesn't have a token''
      else
        case fetchAccount c account of
          Inl e \<Rightarrow> Inl e
        | Inr user \<Rightarrow>
            (case fetchEmails c account of
               Inl e \<Rightarrow> Inl e
             | Inr emails' \<Rightarrow>
                 (case emails' of
                    [] \<Rightarrow> Inl (TypeError ''Cannot read property 'email' of undefined'')
                  | e0 # _ \<Rightarrow>
                      (let defaultEmail = (if email e0 = [] then [] else email e0);
                           avatarURL' = getAvatarWithEnterpriseFallback c
                             (avatar_url user) defaultEmail (endpoint account)
                       in Inr (Account (login account) (endpoint account) (token account)
                                 emails' avatarURL' (user_id user) (user_name user))))))"

text \<open>Lines 136-143.\<close>

definition tryUpdateAccount :: "collaborators \<Rightarrow> account \<Rightarrow> account" where
  "tryUpdateAccount c account =
     (case updatedAccount c account of Inr a \<Rightarrow> a | Inl e \<Rightarrow> account)"

text \<open>
  The loop of lines 178-198 over the records still to process, with the array
  \<^verbatim>\<open>accountsWithTokens\<close> built so far; \<^verbatim>\<open>token || ''\<close> is the empty string when the
  credential store has no secret or an empty one.
\<close>

fun loadLoop ::
  "collaborators \<Rightarrow> iaccount list \<Rightarrow> account list \<Rightarrow> accounts_store
     \<Rightarrow> account list \<times> accounts_store" where
  "loadLoop c [] accountsWithTokens s = (accountsWithTokens, s)"
| "loadLoop c (account # rest) accountsWithTokens s =
     (let accountWithoutToken = Account (login account) (endpoint account) []
            (emails account) (avatarURL account) (account_id account) (name account);
          key = getKeyForAccount c accountWithoutToken
      in case secure_getItem c (secureStore s) key (login account) of
           Inr tok \<Rightarrow>
             loadLoop c rest
               (accountsWithTokens @
                  [withToken accountWithoutToken (case tok of None \<Rightarrow> [] | Some t \<Rightarrow> t)]) s
         | Inl e \<Rightarrow> loadLoop c rest accountsWithTokens (emitError e s))"

text \<open>
  The rest of \<^verbatim>\<open>loadFromStore\<close> once it is resumed: the loop, then lines 200-201, and the
  promise resolves.
\<close>

definition resumeLoad :: "collaborators \<Rightarrow> iaccount list \<Rightarrow> accounts_store \<Rightarrow> accounts_store" where
  "resumeLoad c rawAccounts s =
     (case loadLoop c rawAccounts [] s of
        (accountsWithTokens, s') \<Rightarrow>
          (emitUpdate (s'\<lparr>accounts := accountsWithTokens\<rparr>))\<lparr>loadingPromise := Resolved\<rparr>)"

text \<open>
  Lines 170-202 up to the first \<^verbatim>\<open>await\<close>, which is all of \<^verbatim>\<open>loadFromStore\<close> that runs inside
  the constructor: an absent or empty value returns at once; a text that does not parse
  rejects the promise; an empty array runs lines 200-201 without ever suspending; otherwise
  the function suspends in the first round of the loop.
\<close>

definition loadFromStore :: "accounts_store \<Rightarrow> accounts_store" where
  "loadFromStore s =
     (case dataStore s ''users'' of
        None \<Rightarrow> s\<lparr>loadingPromise := Resolved\<rparr>
      | Some r \<Rightarrow>
          if r = EmptyString then s\<lparr>loadingPromise := Resolved\<rparr>
          else
            (case JSON_parse r of
               Inl e \<Rightarrow> s\<lparr>loadingPromise := Rejected e\<rparr>
             | Inr rawAccounts \<Rightarrow>
                 if rawAccounts = [] then
                   (emitUpdate (s\<lparr>accounts := []\<rparr>))\<lparr>loadingPromise := Resolved\<rparr>
                 else s\<lparr>loadingPromise := Pending rawAccounts\<rparr>))"

text \<open>Lines 44-55: the constructor, given the contents of the two stores.\<close>

definition AccountsStore ::
  "(string \<rightharpoonup> raw) \<Rightarrow> (string \<times> string \<rightharpoonup> string) \<Rightarrow> accounts_store" where
  "AccountsStore ds ss =
     loadFromStore
       \<lparr>dataStore = ds, secureStore = ss, accounts = [], loadingPromise = Resolved, emitted = []\<rparr>"

text \<open>
  \<^verbatim>\<open>await this.loadingPromise\<close>: the caller goes on only once the promise is settled, so a
  pending load is run to its end first; a rejected promise throws its error in the caller.
\<close>

definition awaitLoadingPromise ::
  "collaborators \<Rightarrow> accounts_store \<Rightarrow> (error + unit) \<times> accounts_store" where
  "awaitLoadingPromise c s =
     (case loadingPromise s of
        Resolved \<Rightarrow> (Inr (), s)
      | Rejected e \<Rightarrow> (Inl e, s)
      | Pending rawAccounts \<Rightarrow> (Inr (), resumeLoad c rawAccounts s))"

text \<open>Lines 78-82.\<close>

definition getAll :: "collaborators \<Rightarrow> accounts_store \<Rightarrow> (error + account list) \<times> accounts_store" where
  "getAll c s0 =
     (case awaitLoadingPromise c s0 of
        (Inl e, s) \<Rightarrow> (Inl e, s)
      | (Inr _, s) \<Rightarrow> (Inr (accounts s), s))"

text \<open>Lines 87-112. The calls of \<^verbatim>\<open>log\<close> have no effect on the store and are left out.\<close>

definition addAccount ::
  "collaborators \<Rightarrow> account \<Rightarrow> accounts_store \<Rightarrow> (error + unit) \<times> accounts_store" where
  "addAccount c account s0 =
     (case awaitLoadingPromise c s0 of
        (Inl e, s) \<Rightarrow> (Inl e, s)
      | (Inr _, s) \<Rightarrow>
          (let updated = (case updatedAccount c account of Inr a \<Rightarrow> a | Inl e \<Rightarrow> account)
           in case secure_setItem c (secureStore s) (getKeyForAccount c updated)
                     (login updated) (token updated) of
                Inl e \<Rightarrow> (Inr (), emitError e s)
              | Inr ss \<Rightarrow>
                  (Inr (), save (s\<lparr>secureStore := ss, accounts := accounts s @ [updated]\<rparr>))))"

text \<open>
  Lines 115-123. There is no \<^verbatim>\<open>await this.loadingPromise\<close> here: the accounts are read as
  they are when \<^verbatim>\<open>refresh\<close> is called, and a pending load stays pending.
\<close>

definition refresh :: "collaborators \<Rightarrow> accounts_store \<Rightarrow> (error + unit) \<times> accounts_store" where
  "refresh c s =
     (Inr (), emitUpdate (save (s\<lparr>accounts := map (\<lambda>acc. tryUpdateAccount c acc) (accounts s)\<rparr>)))"

text \<open>Lines 148-165.\<close>

definition removeAccount ::
  "collaborators \<Rightarrow> account \<Rightarrow> accounts_store \<Rightarrow> (error + unit) \<times> accounts_store" where
  "removeAccount c account s0 =
     (case awaitLoadingPromise c s0 of
        (Inl e, s) \<Rightarrow> (Inl e, s)
      | (Inr _, s) \<Rightarrow>
          (case secure_deleteItem c (secureStore s) (getKeyForAccount c account) (login account) of
             Inl e \<Rightarrow> (Inr (), emitError e s)
           | Inr ss \<Rightarrow>
               (Inr (), save (s\<lparr>secureStore := ss,
                  accounts := filter (\<lambda>a. account_id a \<noteq> account_id account) (accounts s)\<rparr>))))"

section \<open>A concrete scenario\<close>

text \<open>
  Two accounts on the endpoint \<open>e\<close>, a third and a fourth that have not been fetched yet
  (their id is still 0), and collaborators for the situations the store has to cope with.
\<close>

definition alice :: account where
  "alice = Account ''alice'' ''e'' ''t'' [] [] 1 ''Alice''"

definition bob :: account where
  "bob = Account ''bob'' ''e'' ''u'' [] [] 2 ''Bob''"

definition carol :: account where
  "carol = Account ''carol'' ''e'' ''v'' [] [] 0 ''Carol''"

definition dave :: account where
  "dave = Account ''dave'' ''e'' ''w'' [] [] 0 ''Dave''"

text \<open>No network; the credential store works.\<close>

definition offline :: collaborators where
  "offline =
     \<lparr>keyFor = (\<lambda>l e. e @ ''/'' @ l),
      fetchAccount = (\<lambda>a. Inl (Error ''offline'')),
      fetchEmails = (\<lambda>a. Inl (Error ''offline'')),
      getAvatarWithEnterpriseFallback = (\<lambda>av em ep. av @ ''?'' @ em),
      getItem_failure = (\<lambda>k u. None),
      setItem_failure = (\<lambda>k u. None),
      deleteItem_failure = (\<lambda>k u. None)\<rparr>"

text \<open>The credential store refuses every write and every deletion.\<close>

definition vault_locked :: collaborators where
  "vault_locked =
     offline\<lparr>setItem_failure := (\<lambda>k u. Some (Error ''locked'')),
             deleteItem_failure := (\<lambda>k u. Some (Error ''locked''))\<rparr>"

text \<open>The credential store fails to look up the secret of \<open>bob\<close>.\<close>

definition bob_unreadable :: collaborators where
  "bob_unreadable =
     offline\<lparr>getItem_failure := (\<lambda>k u. if u = ''bob'' then Some (Error ''denied'') else None)\<rparr>"

text \<open>The network answers for \<open>alice\<close> only, with a new name.\<close>

definition alice_online :: collaborators where
  "alice_online =
     offline\<lparr>fetchAccount := (\<lambda>a. if login a = ''alice''
                then Inr \<lparr>user_id = 1, user_name = ''Alice A.'', avatar_url = ''img''\<rparr>
                else Inl (Error ''offline'')),
             fetchEmails := (\<lambda>a. if login a = ''alice''
                then Inr [\<lparr>email = ''a@x.org'', verified = True, primary = True,
                           visibility = ''public''\<rparr>]
                else Inl (Error ''offline''))\<rparr>"

text \<open>The network answers, and the list of emails it returns is empty.\<close>

definition no_emails :: collaborators where
  "no_emails =
     offline\<lparr>fetchAccount := (\<lambda>a. Inr \<lparr>user_id = 1, user_name = ''Alice A.'', avatar_url = ''img''\<rparr>),
             fetchEmails := (\<lambda>a. Inr [])\<rparr>"

text \<open>What an earlier session has left in the two stores.\<close>

definition stored_users :: "string \<rightharpoonup> raw" where
  "stored_users = [''users'' \<mapsto> UsersJson [withToken alice [], withToken bob []]]"

definition stored_four :: "string \<rightharpoonup> raw" where
  "stored_four =
     [''users'' \<mapsto> UsersJson [withToken carol [], withToken bob [], withToken dave [],
                               withToken alice []]]"

definition vault :: "string \<times> string \<rightharpoonup> string" where
  "vault = [(''e/alice'', ''alice'') \<mapsto> ''t'', (''e/bob'', ''bob'') \<mapsto> ''u'']"

section \<open>Auxiliary facts\<close>

lemma updatedAccount_keeps:
  "updatedAccount c a = Inr u \<Longrightarrow> login u = login a \<and> endpoint u = endpoint a \<and> token u = token a"
  by (auto simp: updatedAccount_def fatalError_def Account_def Let_def
      split: if_splits sum.splits list.splits)

lemma updated_keeps:
  "login (case updatedAccount c a of Inr u \<Rightarrow> u | Inl e \<Rightarrow> a) = login a"
  "endpoint (case updatedAccount c a of Inr u \<Rightarrow> u | Inl e \<Rightarrow> a) = endpoint a"
  "token (case updatedAccount c a of Inr u \<Rightarrow> u | Inl e \<Rightarrow> a) = token a"
  by (auto split: sum.splits dest: updatedAccount_keeps)

lemma updated_key:
  "getKeyForAccount c (case updatedAccount c a of Inr u \<Rightarrow> u | Inl e \<Rightarrow> a) = getKeyForAccount c a"
  by (simp add: getKeyForAccount_def updated_keeps)

lemma withToken_eq: "withToken a t = a\<lparr>token := t\<rparr>"
  by (simp add: withToken_def Account_def)

lemma save_dataStore:
  "dataStore (save s) = (dataStore s)(''users'' \<mapsto> UsersJson (map (\<lambda>a. a\<lparr>token := []\<rparr>) (accounts s)))"
  by (simp add: save_def emitUpdate_def JSON_stringify_def withToken_eq)

lemma save_fields:
  "accounts (save s) = accounts s" "secureStore (save s) = secureStore s"
  "loadingPromise (save s) = loadingPromise s" "emitted (save s) = emitted s @ [DidUpdate]"
  by (simp_all add: save_def emitUpdate_def)

lemma addAccount_cases:
  "snd (addAccount c account s0) =
     (case awaitLoadingPromise c s0 of
        (Inl e, s) \<Rightarrow> s
      | (Inr _, s) \<Rightarrow>
         (case setItem_failure c (getKeyForAccount c account) (login account) of
            Some e \<Rightarrow> emitError e s
          | None \<Rightarrow> save (s\<lparr>secureStore := (secureStore s)((getKeyForAccount c account, login account) \<mapsto> token account),
                accounts := accounts s @ [case updatedAccount c account of Inr a \<Rightarrow> a | Inl e \<Rightarrow> account]\<rparr>)))"
proof (cases "awaitLoadingPromise c s0")
  case (Pair r s)
  then show ?thesis
    by (cases r)
      (simp_all add: addAccount_def Let_def secure_setItem_def updated_key updated_keeps
        split: option.splits)
qed

lemma removeAccount_cases:
  "snd (removeAccount c account s0) =
     (case awaitLoadingPromise c s0 of
        (Inl e, s) \<Rightarrow> s
      | (Inr _, s) \<Rightarrow>
         (case deleteItem_failure c (getKeyForAccount c account) (login account) of
            Some e \<Rightarrow> emitError e s
          | None \<Rightarrow> save (s\<lparr>secureStore := (secureStore s)((getKeyForAccount c account, login account) := None),
                accounts := filter (\<lambda>a. account_id a \<noteq> account_id account) (accounts s)\<rparr>)))"
  by (auto simp: removeAccount_def secure_deleteItem_def
      split: prod.splits sum.splits option.splits)

lemma refresh_eq:
  "snd (refresh c s) = emitUpdate (save (s\<lparr>accounts := map (tryUpdateAccount c) (accounts s)\<rparr>))"
  by (simp add: refresh_def)

lemma emitError_fields:
  "accounts (emitError e s) = accounts s" "secureStore (emitError e s) = secureStore s"
  "dataStore (emitError e s) = dataStore s" "loadingPromise (emitError e s) = loadingPromise s"
  "emitted (emitError e s) = emitted s @ [DidError e]"
  by (simp_all add: emitError_def)

lemma loadLoop_eq:
  "secureStore s = ss \<Longrightarrow> loadLoop c rs acc s =
     (acc @ concat (map (\<lambda>r. case getItem_failure c (keyFor c (login r) (endpoint r)) (login r) of
                               Some e \<Rightarrow> []
                             | None \<Rightarrow> [r\<lparr>token := (case ss (keyFor c (login r) (endpoint r), login r) of
                                                      None \<Rightarrow> [] | Some t \<Rightarrow> t)\<rparr>]) rs),
      s\<lparr>emitted := emitted s @
           concat (map (\<lambda>r. case getItem_failure c (keyFor c (login r) (endpoint r)) (login r) of
                               Some e \<Rightarrow> [DidError e]
                             | None \<Rightarrow> []) rs)\<rparr>)"
proof (induction rs arbitrary: acc s)
  case Nil
  then show ?case by simp
next
  case (Cons r rs)
  show ?case
  proof (cases "getItem_failure c (keyFor c (login r) (endpoint r)) (login r)")
    case None
    with Cons.prems show ?thesis
      by (simp add: Cons.IH Let_def secure_getItem_def getKeyForAccount_def Account_def withToken_def)
  next
    case (Some e)
    have "secureStore (emitError e s) = ss"
      using Cons.prems by (simp add: emitError_def)
    from Cons.IH [OF this] Some Cons.prems show ?thesis
      by (simp add: Let_def secure_getItem_def getKeyForAccount_def Account_def emitError_def)
  qed
qed

lemma resumeLoad_accounts:
  "secureStore s = ss \<Longrightarrow> accounts (resumeLoad c rs s) =
     concat (map (\<lambda>r. case getItem_failure c (keyFor c (login r) (endpoint r)) (login r) of
                               Some e \<Rightarrow> []
                             | None \<Rightarrow> [r\<lparr>token := (case ss (keyFor c (login r) (endpoint r), login r) of
                                                      None \<Rightarrow> [] | Some t \<Rightarrow> t)\<rparr>]) rs)"
  using loadLoop_eq [of s ss c rs "[]"] by (simp add: resumeLoad_def emitUpdate_def)

lemma resumeLoad_fields:
  "emitted (resumeLoad c rs s) = emitted s @
           concat (map (\<lambda>r. case getItem_failure c (keyFor c (login r) (endpoint r)) (login r) of
                               Some e \<Rightarrow> [DidError e]
                             | None \<Rightarrow> []) rs) @ [DidUpdate]"
  "dataStore (resumeLoad c rs s) = dataStore s"
  "secureStore (resumeLoad c rs s) = secureStore s"
  "loadingPromise (resumeLoad c rs s) = Resolved"
  by (simp_all add: resumeLoad_def loadLoop_eq [OF refl] emitUpdate_def)

lemma awaitLoadingPromise_dataStore:
  "dataStore (snd (awaitLoadingPromise c s)) = dataStore s"
  by (simp add: awaitLoadingPromise_def resumeLoad_fields split: promise.splits)

lemma AccountsStore_dataStore: "dataStore (AccountsStore ds ss) = ds"
  by (simp add: AccountsStore_def loadFromStore_def emitUpdate_def split: option.splits sum.splits)

lemma tryUpdateAccount_eq:
  "tryUpdateAccount c a = (case updatedAccount c a of Inr u \<Rightarrow> u | Inl e \<Rightarrow> a)"
  by (simp add: tryUpdateAccount_def)

lemma distinct_concat_option:
  "distinct (map f rs) \<Longrightarrow> (\<And>r. g r = [] \<or> (\<exists>y. g r = [y] \<and> f y = f r))
     \<Longrightarrow> distinct (map f (concat (map g rs)))"
proof (induction rs)
  case Nil
  then show ?case by simp
next
  case (Cons r rs)
  have sub: "f ` set (concat (map g rs)) \<subseteq> f ` set rs"
  proof
    fix x assume "x \<in> f ` set (concat (map g rs))"
    then obtain y r' where "r' \<in> set rs" "y \<in> set (g r')" "x = f y" by auto
    moreover from Cons.prems(2) [of r'] \<open>y \<in> set (g r')\<close> have "f y = f r'" by auto
    ultimately show "x \<in> f ` set rs" by auto
  qed
  from Cons.prems(2) [of r] show ?case
  proof
    assume "g r = []"
    with Cons show ?thesis by simp
  next
    assume "\<exists>y. g r = [y] \<and> f y = f r"
    then obtain y where "g r = [y]" "f y = f r" by blast
    with Cons sub show ?thesis by auto
  qed
qed

lemma getAll_snd: "snd (getAll c s) = snd (awaitLoadingPromise c s)"
  by (simp add: getAll_def split: prod.splits sum.splits)

lemma getAll_dataStore: "dataStore (snd (getAll c (AccountsStore ds ss))) = ds"
  by (simp add: getAll_snd awaitLoadingPromise_dataStore AccountsStore_dataStore)

lemma load_errors_map_filter:
  "concat (map (\<lambda>r. case g r of Some e \<Rightarrow> [DidError e] | None \<Rightarrow> []) rs)
     = map DidError (List.map_filter g rs)"
  by (induction rs) (simp_all split: option.splits)

lemma load_emitted_nothing:
  "ds ''users'' = None \<or> ds ''users'' = Some EmptyString \<or> ds ''users'' = Some Malformed
     \<Longrightarrow> emitted (snd (getAll c (AccountsStore ds ss))) = []"
  by (auto simp: getAll_snd AccountsStore_def loadFromStore_def awaitLoadingPromise_def)

lemma load_emitted_records:
  assumes "ds ''users'' = Some (UsersJson rs)"
  shows "emitted (snd (getAll c (AccountsStore ds ss))) =
           map DidError (List.map_filter
             (\<lambda>r. getItem_failure c (keyFor c (login r) (endpoint r)) (login r)) rs) @ [DidUpdate]"
proof (cases "rs = []")
  case True
  with assms show ?thesis
    by (simp add: getAll_snd AccountsStore_def loadFromStore_def awaitLoadingPromise_def
        emitUpdate_def)
next
  case False
  with assms show ?thesis
    by (simp add: getAll_snd AccountsStore_def loadFromStore_def awaitLoadingPromise_def
        resumeLoad_fields load_errors_map_filter)
qed

text \<open>The equations that evaluate the scenario.\<close>

lemmas scenario_defs = alice_def bob_def carol_def dave_def offline_def vault_locked_def
  bob_unreadable_def alice_online_def no_emails_def stored_users_def stored_four_def vault_def

lemmas run_defs = AccountsStore_def loadFromStore_def awaitLoadingPromise_def resumeLoad_def
  secure_getItem_def secure_setItem_def secure_deleteItem_def getKeyForAccount_def
  Account_def withToken_def emitUpdate_def emitError_def save_def JSON_stringify_def
  updatedAccount_def fatalError_def tryUpdateAccount_def getAll_def addAccount_def
  removeAccount_def refresh_def Let_def

section \<open>The claims\<close>

subsection \<open>Refreshing before the load has ended\<close>

text \<open>
  Claim C1 does not hold of \<open>refresh\<close>, which is the only public operation without
  \<^verbatim>\<open>await this.loadingPromise\<close>. With two accounts persisted, the load is still pending
  when the constructor returns. \<open>getAll\<close> called then waits and returns both accounts;
  \<open>refresh\<close> called then reads the empty list, writes the empty list under \<^verbatim>\<open>users\<close> over
  the two persisted records, and leaves the load pending; when the load ends afterwards,
  both accounts are in memory and neither is persisted any more.
\<close>

theorem refresh_does_not_await_load:
  "loadingPromise (AccountsStore stored_users vault)
     = Pending [withToken alice [], withToken bob []]
   \<and> accounts (AccountsStore stored_users vault) = []
   \<and> fst (getAll offline (AccountsStore stored_users vault)) = Inr [alice, bob]
   \<and> accounts (snd (refresh offline (AccountsStore stored_users vault))) = []
   \<and> dataStore (snd (refresh offline (AccountsStore stored_users vault))) ''users''
       = Some (UsersJson [])
   \<and> loadingPromise (snd (refresh offline (AccountsStore stored_users vault)))
       = Pending [withToken alice [], withToken bob []]
   \<and> fst (getAll offline (snd (refresh offline (AccountsStore stored_users vault))))
       = Inr [alice, bob]
   \<and> dataStore (snd (getAll offline (snd (refresh offline (AccountsStore stored_users vault)))))
         ''users''
       = Some (UsersJson [])"
  by (simp add: scenario_defs run_defs)

subsection \<open>An empty list of emails\<close>

text \<open>
  Claim C2 does not hold of \<open>updatedAccount\<close>: for an account with a token, when
  \<^verbatim>\<open>fetchAccount\<close> succeeds and \<^verbatim>\<open>fetchEmails\<close> returns the empty list, reading
  \<^verbatim>\<open>emails[0].email\<close> throws, and no account is produced.
\<close>

theorem updatedAccount_throws_on_empty_emails:
  "token alice = ''t''
   \<and> fetchEmails no_emails alice = Inr []
   \<and> updatedAccount no_emails alice
       = Inl (TypeError ''Cannot read property 'email' of undefined'')"
  by (simp add: scenario_defs run_defs)

subsection \<open>Add is atomic when the credential store fails\<close>

text \<open>
  Claim C3. When \<^verbatim>\<open>setItem\<close> fails with \<open>e\<close> during \<open>addAccount\<close>, the only effect of the call on
  the state \<open>s\<close> it works on (the state once the load is settled, which is the state of the
  call itself when the load was settled already) is the error notification carrying \<open>e\<close>:
  the accounts in memory, the data store and the credential store are as in \<open>s\<close>, and no
  update notification is emitted.
\<close>

theorem addAccount_setItem_failure_atomic:
  assumes "awaitLoadingPromise c s0 = (Inr (), s)"
    and "setItem_failure c (getKeyForAccount c account) (login account) = Some e"
  shows "accounts (snd (addAccount c account s0)) = accounts s
       \<and> dataStore (snd (addAccount c account s0)) = dataStore s
       \<and> secureStore (snd (addAccount c account s0)) = secureStore s
       \<and> emitted (snd (addAccount c account s0)) = emitted s @ [DidError e]
       \<and> (loadingPromise s0 = Resolved \<longrightarrow> s = s0)"
  using assms
  by (auto simp: addAccount_def Let_def secure_setItem_def updated_key updated_keeps emitError_def
      awaitLoadingPromise_def split: promise.splits)

theorem addAccount_setItem_failure_atomic_witness:
  "awaitLoadingPromise vault_locked (AccountsStore stored_users vault)
     = (Inr (), snd (getAll vault_locked (AccountsStore stored_users vault)))
   \<and> setItem_failure vault_locked (getKeyForAccount vault_locked carol) (login carol)
       = Some (Error ''locked'')
   \<and> accounts (snd (addAccount vault_locked carol (AccountsStore stored_users vault)))
       = [alice, bob]
   \<and> dataStore (snd (addAccount vault_locked carol (AccountsStore stored_users vault)))
       = stored_users
   \<and> secureStore (snd (addAccount vault_locked carol (AccountsStore stored_users vault)))
       = vault
   \<and> emitted (snd (addAccount vault_locked carol (AccountsStore stored_users vault)))
       = [DidUpdate, DidError (Error ''locked'')]"
proof -
  have h1: "awaitLoadingPromise vault_locked (AccountsStore stored_users vault)
     = (Inr (), snd (getAll vault_locked (AccountsStore stored_users vault)))"
    by (simp add: scenario_defs run_defs)
  have h2: "setItem_failure vault_locked (getKeyForAccount vault_locked carol) (login carol)
       = Some (Error ''locked'')"
    by (simp add: scenario_defs)
  have s: "accounts (snd (getAll vault_locked (AccountsStore stored_users vault))) = [alice, bob]"
    "dataStore (snd (getAll vault_locked (AccountsStore stored_users vault))) = stored_users"
    "secureStore (snd (getAll vault_locked (AccountsStore stored_users vault))) = vault"
    "emitted (snd (getAll vault_locked (AccountsStore stored_users vault))) = [DidUpdate]"
    by (simp_all add: scenario_defs run_defs)
  show ?thesis
    using addAccount_setItem_failure_atomic [OF h1 h2] h1 h2 by (simp add: s)
qed

subsection \<open>Remove is atomic when the credential store fails\<close>

text \<open>
  Claim C4. When \<^verbatim>\<open>deleteItem\<close> fails with \<open>e\<close> during \<open>removeAccount\<close>, the accounts in memory,
  the data store and the credential store are exactly as before, and the error notification
  carrying \<open>e\<close> is emitted.
\<close>

theorem removeAccount_deleteItem_failure_atomic:
  assumes "awaitLoadingPromise c s0 = (Inr (), s)"
    and "deleteItem_failure c (getKeyForAccount c account) (login account) = Some e"
  shows "accounts (snd (removeAccount c account s0)) = accounts s
       \<and> dataStore (snd (removeAccount c account s0)) = dataStore s
       \<and> secureStore (snd (removeAccount c account s0)) = secureStore s
       \<and> emitted (snd (removeAccount c account s0)) = emitted s @ [DidError e]
       \<and> (loadingPromise s0 = Resolved \<longrightarrow> s = s0)"
  using assms
  by (auto simp: removeAccount_def secure_deleteItem_def emitError_def
      awaitLoadingPromise_def split: promise.splits)

theorem removeAccount_deleteItem_failure_atomic_witness:
  "awaitLoadingPromise vault_locked (AccountsStore stored_users vault)
     = (Inr (), snd (getAll vault_locked (AccountsStore stored_users vault)))
   \<and> deleteItem_failure vault_locked (getKeyForAccount vault_locked alice) (login alice)
       = Some (Error ''locked'')
   \<and> accounts (snd (removeAccount vault_locked alice (AccountsStore stored_users vault)))
       = [alice, bob]
   \<and> dataStore (snd (removeAccount vault_locked alice (AccountsStore stored_users vault)))
       = stored_users
   \<and> secureStore (snd (removeAccount vault_locked alice (AccountsStore stored_users vault)))
       = vault
   \<and> emitted (snd (removeAccount vault_locked alice (AccountsStore stored_users vault)))
       = [DidUpdate, DidError (Error ''locked'')]"
proof -
  have h1: "awaitLoadingPromise vault_locked (AccountsStore stored_users vault)
     = (Inr (), snd (getAll vault_locked (AccountsStore stored_users vault)))"
    by (simp add: scenario_defs run_defs)
  have h2: "deleteItem_failure vault_locked (getKeyForAccount vault_locked alice) (login alice)
       = Some (Error ''locked'')"
    by (simp add: scenario_defs)
  have s: "accounts (snd (getAll vault_locked (AccountsStore stored_users vault))) = [alice, bob]"
    "dataStore (snd (getAll vault_locked (AccountsStore stored_users vault))) = stored_users"
    "secureStore (snd (getAll vault_locked (AccountsStore stored_users vault))) = vault"
    "emitted (snd (getAll vault_locked (AccountsStore stored_users vault))) = [DidUpdate]"
    by (simp_all add: scenario_defs run_defs)
  show ?thesis
    using removeAccount_deleteItem_failure_atomic [OF h1 h2] h1 h2 by (simp add: s)
qed

subsection \<open>Tokens never reach the data store\<close>

text \<open>
  Claim C5. After a successful \<open>addAccount\<close>, a successful \<open>removeAccount\<close> and any \<open>refresh\<close>,
  the value under \<^verbatim>\<open>users\<close> is the list of the accounts in memory with every token replaced
  by the empty string, so every record of it has an empty token; and after a successful
  \<open>addAccount\<close> the credential store holds the token of the account under the key derived
  from its login and endpoint, with the login as user name.
\<close>

theorem token_metadata_separation:
  assumes "awaitLoadingPromise c s0 = (Inr (), s)"
  shows "(setItem_failure c (getKeyForAccount c account) (login account) = None \<longrightarrow>
            (\<exists>xs. dataStore (snd (addAccount c account s0)) ''users'' = Some (UsersJson xs)
                \<and> xs = map (\<lambda>a. a\<lparr>token := []\<rparr>) (accounts (snd (addAccount c account s0)))
                \<and> (\<forall>r \<in> set xs. token r = []))
            \<and> secureStore (snd (addAccount c account s0))
                 (keyFor c (login account) (endpoint account), login account) = Some (token account))
       \<and> (deleteItem_failure c (getKeyForAccount c account) (login account) = None \<longrightarrow>
            (\<exists>xs. dataStore (snd (removeAccount c account s0)) ''users'' = Some (UsersJson xs)
                \<and> xs = map (\<lambda>a. a\<lparr>token := []\<rparr>) (accounts (snd (removeAccount c account s0)))
                \<and> (\<forall>r \<in> set xs. token r = [])))
       \<and> (\<exists>xs. dataStore (snd (refresh c s0)) ''users'' = Some (UsersJson xs)
                \<and> xs = map (\<lambda>a. a\<lparr>token := []\<rparr>) (accounts (snd (refresh c s0)))
                \<and> (\<forall>r \<in> set xs. token r = []))"
proof (intro conjI impI)
  assume ok: "setItem_failure c (getKeyForAccount c account) (login account) = None"
  show "\<exists>xs. dataStore (snd (addAccount c account s0)) ''users'' = Some (UsersJson xs)
                \<and> xs = map (\<lambda>a. a\<lparr>token := []\<rparr>) (accounts (snd (addAccount c account s0)))
                \<and> (\<forall>r \<in> set xs. token r = [])"
    using assms ok by (simp add: addAccount_cases save_dataStore save_fields)
  show "secureStore (snd (addAccount c account s0))
          (keyFor c (login account) (endpoint account), login account) = Some (token account)"
    using assms ok by (simp add: addAccount_cases save_fields getKeyForAccount_def)
next
  assume ok: "deleteItem_failure c (getKeyForAccount c account) (login account) = None"
  show "\<exists>xs. dataStore (snd (removeAccount c account s0)) ''users'' = Some (UsersJson xs)
                \<and> xs = map (\<lambda>a. a\<lparr>token := []\<rparr>) (accounts (snd (removeAccount c account s0)))
                \<and> (\<forall>r \<in> set xs. token r = [])"
    using assms ok by (simp add: removeAccount_cases save_dataStore save_fields)
next
  show "\<exists>xs. dataStore (snd (refresh c s0)) ''users'' = Some (UsersJson xs)
                \<and> xs = map (\<lambda>a. a\<lparr>token := []\<rparr>) (accounts (snd (refresh c s0)))
                \<and> (\<forall>r \<in> set xs. token r = [])"
    by (simp add: refresh_eq emitUpdate_def save_dataStore save_fields)
qed

theorem token_metadata_separation_witness:
  "awaitLoadingPromise offline (snd (getAll offline (AccountsStore stored_users vault)))
     = (Inr (), snd (getAll offline (AccountsStore stored_users vault)))
   \<and> setItem_failure offline (getKeyForAccount offline carol) (login carol) = None
   \<and> deleteItem_failure offline (getKeyForAccount offline carol) (login carol) = None
   \<and> accounts (snd (getAll offline (AccountsStore stored_users vault))) = [alice, bob]
   \<and> dataStore (snd (addAccount offline carol
                   (snd (getAll offline (AccountsStore stored_users vault))))) ''users''
       = Some (UsersJson [withToken alice [], withToken bob [], withToken carol []])
   \<and> secureStore (snd (addAccount offline carol
                   (snd (getAll offline (AccountsStore stored_users vault)))))
         (''e/carol'', ''carol'') = Some ''v''
   \<and> dataStore (snd (removeAccount offline carol
                   (snd (getAll offline (AccountsStore stored_users vault))))) ''users''
       = Some (UsersJson [withToken alice [], withToken bob []])
   \<and> dataStore (snd (refresh offline
                   (snd (getAll offline (AccountsStore stored_users vault))))) ''users''
       = Some (UsersJson [withToken alice [], withToken bob []])"
proof -
  have h1: "awaitLoadingPromise offline (snd (getAll offline (AccountsStore stored_users vault)))
     = (Inr (), snd (getAll offline (AccountsStore stored_users vault)))"
    by (simp add: scenario_defs run_defs)
  show ?thesis
    using token_metadata_separation [OF h1, of carol] h1
    by (simp add: scenario_defs run_defs)
qed

subsection \<open>Refresh falls back account by account\<close>

text \<open>
  Claim C6 does not hold of \<open>refresh\<close> at every position whose fetch succeeded. With
  \<open>alice\<close> and \<open>bob\<close> in memory, both with a token, and a network that answers
  \<^verbatim>\<open>fetchAccount\<close> with a new name and \<^verbatim>\<open>fetchEmails\<close> with the empty list, both fetches of
  each account succeed, and still \<open>refresh\<close> leaves the two original accounts in the list:
  \<open>updatedAccount\<close> throws on \<^verbatim>\<open>emails[0].email\<close> and \<open>tryUpdateAccount\<close> falls back as it
  does for a failed fetch. The length and the order are kept and the update notification
  is emitted.
\<close>

theorem refresh_keeps_original_on_empty_emails:
  "accounts (snd (getAll no_emails (AccountsStore stored_users vault))) = [alice, bob]
   \<and> fetchAccount no_emails alice
       = Inr \<lparr>user_id = 1, user_name = ''Alice A.'', avatar_url = ''img''\<rparr>
   \<and> fetchEmails no_emails alice = Inr []
   \<and> name alice = ''Alice''
   \<and> accounts (snd (refresh no_emails
        (snd (getAll no_emails (AccountsStore stored_users vault))))) = [alice, bob]
   \<and> emitted (snd (refresh no_emails
        (snd (getAll no_emails (AccountsStore stored_users vault)))))
       = [DidUpdate, DidUpdate, DidUpdate]"
  by (simp add: scenario_defs run_defs)

subsection \<open>The initial load skips the records whose lookup fails\<close>

text \<open>
  Claim C7. Loading the records \<open>rs\<close> yields, in order, every record whose token lookup did
  not fail, with the token found in the credential store (the empty string when there is
  none); a record whose lookup fails is left out and its error is emitted; the records after
  it are processed all the same, and the update notification closes the load.
\<close>

theorem initial_load_skips_failed_lookups:
  assumes "ds ''users'' = Some (UsersJson rs)"
  shows "fst (getAll c (AccountsStore ds ss)) =
           Inr (concat (map (\<lambda>r. case getItem_failure c (keyFor c (login r) (endpoint r)) (login r) of
                               Some e \<Rightarrow> []
                             | None \<Rightarrow> [r\<lparr>token := (case ss (keyFor c (login r) (endpoint r), login r) of
                                                      None \<Rightarrow> [] | Some t \<Rightarrow> t)\<rparr>]) rs))
       \<and> emitted (snd (getAll c (AccountsStore ds ss))) =
           concat (map (\<lambda>r. case getItem_failure c (keyFor c (login r) (endpoint r)) (login r) of
                               Some e \<Rightarrow> [DidError e]
                             | None \<Rightarrow> []) rs) @ [DidUpdate]"
proof (cases "rs = []")
  case True
  with assms show ?thesis
    by (simp add: getAll_def AccountsStore_def loadFromStore_def awaitLoadingPromise_def
        emitUpdate_def)
next
  case False
  with assms show ?thesis
    by (simp add: getAll_def AccountsStore_def loadFromStore_def awaitLoadingPromise_def
        resumeLoad_fields resumeLoad_accounts)
qed

theorem initial_load_skips_failed_lookups_witness:
  "stored_four ''users''
     = Some (UsersJson [withToken carol [], withToken bob [], withToken dave [], withToken alice []])
   \<and> fst (getAll bob_unreadable (AccountsStore stored_four vault))
       = Inr [withToken carol [], withToken dave [], alice]
   \<and> emitted (snd (getAll bob_unreadable (AccountsStore stored_four vault)))
       = [DidError (Error ''denied''), DidUpdate]"
proof -
  have h: "stored_four ''users''
     = Some (UsersJson [withToken carol [], withToken bob [], withToken dave [], withToken alice []])"
    by (simp add: stored_four_def)
  show ?thesis
    using initial_load_skips_failed_lookups
        [where ds = stored_four and c = bob_unreadable and ss = vault, OF h] h
    by (simp add: scenario_defs run_defs)
qed

subsection \<open>Persisting after a mutation, not after the load\<close>

text \<open>
  Claim C8, as stated, fails for the initial load: \<open>loadFromStore\<close> never calls \<open>save\<close>.
  When the lookup of one record fails, the load ends with that record missing from memory
  and still present under \<^verbatim>\<open>users\<close>, where \<open>save\<close> would have written the list in memory;
  and on a first run, with nothing under \<^verbatim>\<open>users\<close>, the load writes nothing and emits
  nothing.
\<close>

theorem load_does_not_persist_counterexample:
  "loadingPromise (snd (getAll bob_unreadable (AccountsStore stored_users vault))) = Resolved
   \<and> accounts (snd (getAll bob_unreadable (AccountsStore stored_users vault))) = [alice]
   \<and> dataStore (snd (getAll bob_unreadable (AccountsStore stored_users vault))) ''users''
       = Some (UsersJson [withToken alice [], withToken bob []])
   \<and> dataStore (save (snd (getAll bob_unreadable (AccountsStore stored_users vault)))) ''users''
       = Some (UsersJson [withToken alice []])
   \<and> dataStore (snd (getAll bob_unreadable (AccountsStore stored_users vault))) ''users''
       \<noteq> Some (JSON_stringify (map (\<lambda>a. withToken a [])
            (accounts (snd (getAll bob_unreadable (AccountsStore stored_users vault))))))
   \<and> loadingPromise (AccountsStore Map.empty vault) = Resolved
   \<and> dataStore (AccountsStore Map.empty vault) ''users'' = None
   \<and> emitted (AccountsStore Map.empty vault) = []"
  by (simp add: scenario_defs run_defs)

text \<open>
  Claim C8, amended. A successful \<open>addAccount\<close>, a successful \<open>removeAccount\<close> and every
  \<open>refresh\<close> end with the persist step: the list in memory, with its tokens emptied, is
  written under \<^verbatim>\<open>users\<close> and the update notification is emitted. The initial load does
  not persist: it leaves the data store as it found it. When a list of records is stored
  under \<^verbatim>\<open>users\<close>, the load emits the error of every lookup that fails, in the order of the
  records, and then one update notification; when nothing, the empty string or a text that
  does not parse is stored there, it emits nothing.
\<close>

theorem persist_after_mutations_not_after_load:
  assumes "awaitLoadingPromise c s0 = (Inr (), s)"
  shows "(setItem_failure c (getKeyForAccount c account) (login account) = None \<longrightarrow>
            dataStore (snd (addAccount c account s0)) =
              (dataStore s)(''users'' \<mapsto>
                 JSON_stringify (map (\<lambda>a. withToken a []) (accounts (snd (addAccount c account s0)))))
          \<and> emitted (snd (addAccount c account s0)) = emitted s @ [DidUpdate])
       \<and> (deleteItem_failure c (getKeyForAccount c account) (login account) = None \<longrightarrow>
            dataStore (snd (removeAccount c account s0)) =
              (dataStore s)(''users'' \<mapsto>
                 JSON_stringify (map (\<lambda>a. withToken a []) (accounts (snd (removeAccount c account s0)))))
          \<and> emitted (snd (removeAccount c account s0)) = emitted s @ [DidUpdate])
       \<and> dataStore (snd (refresh c s0)) =
              (dataStore s0)(''users'' \<mapsto>
                 JSON_stringify (map (\<lambda>a. withToken a []) (accounts (snd (refresh c s0)))))
       \<and> emitted (snd (refresh c s0)) = emitted s0 @ [DidUpdate, DidUpdate]
       \<and> dataStore s = dataStore s0
       \<and> dataStore (AccountsStore ds ss) = ds
       \<and> dataStore (snd (getAll c (AccountsStore ds ss))) = ds
       \<and> (ds ''users'' = Some (UsersJson rs) \<longrightarrow>
            emitted (snd (getAll c (AccountsStore ds ss))) =
              map DidError (List.map_filter
                (\<lambda>r. getItem_failure c (keyFor c (login r) (endpoint r)) (login r)) rs)
              @ [DidUpdate])
       \<and> (ds0 ''users'' = None \<or> ds0 ''users'' = Some EmptyString
            \<or> ds0 ''users'' = Some Malformed \<longrightarrow>
            emitted (snd (getAll c (AccountsStore ds0 ss0))) = [])"
  using assms awaitLoadingPromise_dataStore [of c s0]
    load_emitted_records [of ds rs c ss] load_emitted_nothing [of ds0 c ss0]
  by (simp add: addAccount_cases removeAccount_cases refresh_eq save_dataStore save_fields
      emitUpdate_def JSON_stringify_def withToken_eq AccountsStore_dataStore getAll_dataStore)

theorem persist_after_mutations_not_after_load_witness:
  "awaitLoadingPromise bob_unreadable (AccountsStore stored_users vault)
     = (Inr (), snd (getAll bob_unreadable (AccountsStore stored_users vault)))
   \<and> setItem_failure bob_unreadable (getKeyForAccount bob_unreadable carol) (login carol) = None
   \<and> deleteItem_failure bob_unreadable (getKeyForAccount bob_unreadable alice) (login alice) = None
   \<and> stored_users ''users'' = Some (UsersJson [withToken alice [], withToken bob []])
   \<and> (Map.empty :: string \<rightharpoonup> raw) ''users'' = None
   \<and> dataStore (snd (addAccount bob_unreadable carol (AccountsStore stored_users vault))) ''users''
       = Some (UsersJson [withToken alice [], withToken carol []])
   \<and> emitted (snd (addAccount bob_unreadable carol (AccountsStore stored_users vault)))
       = [DidError (Error ''denied''), DidUpdate, DidUpdate]
   \<and> dataStore (snd (removeAccount bob_unreadable alice (AccountsStore stored_users vault))) ''users''
       = Some (UsersJson [])
   \<and> emitted (snd (removeAccount bob_unreadable alice (AccountsStore stored_users vault)))
       = [DidError (Error ''denied''), DidUpdate, DidUpdate]
   \<and> dataStore (snd (getAll bob_unreadable (AccountsStore stored_users vault))) = stored_users
   \<and> emitted (snd (getAll bob_unreadable (AccountsStore stored_users vault)))
       = [DidError (Error ''denied''), DidUpdate]
   \<and> emitted (snd (getAll bob_unreadable (AccountsStore Map.empty vault))) = []"
proof -
  have h1: "awaitLoadingPromise bob_unreadable (AccountsStore stored_users vault)
     = (Inr (), snd (getAll bob_unreadable (AccountsStore stored_users vault)))"
    by (simp add: scenario_defs run_defs)
  have h2: "stored_users ''users'' = Some (UsersJson [withToken alice [], withToken bob []])"
    by (simp add: stored_users_def)
  show ?thesis
    using persist_after_mutations_not_after_load
      [where c = bob_unreadable and ?s0.0 = "AccountsStore stored_users vault"
         and account = carol and ds = stored_users and ss = vault
         and rs = "[withToken alice [], withToken bob []]"
         and ?ds0.0 = Map.empty and ?ss0.0 = vault, OF h1]
      persist_after_mutations_not_after_load
      [where c = bob_unreadable and ?s0.0 = "AccountsStore stored_users vault"
         and account = alice and ds = stored_users and ss = vault
         and rs = "[withToken alice [], withToken bob []]"
         and ?ds0.0 = Map.empty and ?ss0.0 = vault, OF h1]
      h1 h2
    by (simp add: scenario_defs run_defs)
qed

subsection \<open>Distinct ids\<close>

text \<open>
  Claim C9, as stated, fails: \<open>addAccount\<close> appends without looking at the ids in the list.
  Adding the same account twice to an empty store gives a list with two accounts of the
  same id, although the ids were distinct after the first call.
\<close>

theorem addAccount_duplicates_id_counterexample:
  "distinct (map account_id (accounts (snd (addAccount offline alice
      (AccountsStore Map.empty Map.empty)))))
   \<and> accounts (snd (addAccount offline alice (snd (addAccount offline alice
      (AccountsStore Map.empty Map.empty))))) = [alice, alice]
   \<and> \<not> distinct (map account_id (accounts (snd (addAccount offline alice
      (snd (addAccount offline alice (AccountsStore Map.empty Map.empty)))))))"
  by (simp add: scenario_defs run_defs)

text \<open>
  Claim C9, amended. The store makes no check for duplicates. From a list with distinct
  ids, a successful \<open>addAccount\<close> gives a list with distinct ids exactly when the id of the
  account it appends (the fetched one, or the given one when the fetch fails) is not in the
  list yet; \<open>removeAccount\<close> always keeps the ids distinct; the load yields distinct ids
  when the persisted records have distinct ids; \<open>refresh\<close> keeps the ids distinct when no
  account changes its id.
\<close>

theorem ids_stay_distinct_without_duplicate_check:
  assumes "awaitLoadingPromise c s0 = (Inr (), s)"
    and "distinct (map account_id (accounts s))"
  shows "(setItem_failure c (getKeyForAccount c account) (login account) = None \<longrightarrow>
            (distinct (map account_id (accounts (snd (addAccount c account s0))))
               \<longleftrightarrow> account_id (tryUpdateAccount c account) \<notin> account_id ` set (accounts s)))
       \<and> distinct (map account_id (accounts (snd (removeAccount c account s0))))
       \<and> (distinct (map account_id rs) \<longrightarrow>
            distinct (map account_id (accounts (resumeLoad c rs s1))))
       \<and> (list_all (\<lambda>a. account_id (tryUpdateAccount c a) = account_id a) (accounts s) \<longrightarrow>
            distinct (map account_id (accounts (snd (refresh c s)))))"
proof (intro conjI impI)
  assume "setItem_failure c (getKeyForAccount c account) (login account) = None"
  with assms show "distinct (map account_id (accounts (snd (addAccount c account s0))))
               \<longleftrightarrow> account_id (tryUpdateAccount c account) \<notin> account_id ` set (accounts s)"
    by (simp add: addAccount_cases save_fields tryUpdateAccount_eq)
next
  from assms show "distinct (map account_id (accounts (snd (removeAccount c account s0))))"
    by (simp add: removeAccount_cases save_fields emitError_fields distinct_map_filter
        split: option.splits)
next
  assume "distinct (map account_id rs)"
  then show "distinct (map account_id (accounts (resumeLoad c rs s1)))"
    unfolding resumeLoad_accounts [OF refl]
    by (rule distinct_concat_option) (simp split: option.splits)
next
  assume "list_all (\<lambda>a. account_id (tryUpdateAccount c a) = account_id a) (accounts s)"
  then have "map account_id (map (tryUpdateAccount c) (accounts s)) = map account_id (accounts s)"
    by (simp add: list_all_iff)
  with assms(2) show "distinct (map account_id (accounts (snd (refresh c s))))"
    by (simp add: refresh_eq emitUpdate_def save_fields del: map_map)
qed


theorem ids_stay_distinct_without_duplicate_check_witness:
  "awaitLoadingPromise offline (AccountsStore stored_users vault)
     = (Inr (), snd (getAll offline (AccountsStore stored_users vault)))
   \<and> distinct (map account_id (accounts (snd (getAll offline (AccountsStore stored_users vault)))))
   \<and> setItem_failure offline (getKeyForAccount offline carol) (login carol) = None
   \<and> distinct (map account_id [withToken alice [], withToken bob []])
   \<and> list_all (\<lambda>a. account_id (tryUpdateAccount offline a) = account_id a)
        (accounts (snd (getAll offline (AccountsStore stored_users vault))))
   \<and> account_id (tryUpdateAccount offline carol)
        \<notin> account_id ` set (accounts (snd (getAll offline (AccountsStore stored_users vault))))
   \<and> distinct (map account_id (accounts (snd (addAccount offline carol
        (AccountsStore stored_users vault)))))
   \<and> distinct (map account_id (accounts (snd (removeAccount offline carol
        (AccountsStore stored_users vault)))))
   \<and> distinct (map account_id (accounts (resumeLoad offline
        [withToken alice [], withToken bob []] (AccountsStore Map.empty vault))))
   \<and> distinct (map account_id (accounts (snd (refresh offline
        (snd (getAll offline (AccountsStore stored_users vault)))))))"
proof -
  have h1: "awaitLoadingPromise offline (AccountsStore stored_users vault)
     = (Inr (), snd (getAll offline (AccountsStore stored_users vault)))"
    by (simp add: scenario_defs run_defs)
  have h2: "distinct (map account_id
      (accounts (snd (getAll offline (AccountsStore stored_users vault)))))"
    by (simp add: scenario_defs run_defs)
  show ?thesis
    using ids_stay_distinct_without_duplicate_check [OF h1 h2, of carol
        "[withToken alice [], withToken bob []]" "AccountsStore Map.empty vault"] h1 h2
    by (simp add: scenario_defs run_defs)
qed

subsection \<open>Remove drops every account with the id\<close>

text \<open>
  Claim C10. When \<^verbatim>\<open>deleteItem\<close> succeeds, \<open>removeAccount\<close> keeps exactly the accounts whose
  id differs from the id of its argument, in their order: no account with that id remains,
  however many there were, and every other account remains.
\<close>

theorem removeAccount_drops_every_matching_id:
  assumes "awaitLoadingPromise c s0 = (Inr (), s)"
    and "deleteItem_failure c (getKeyForAccount c account) (login account) = None"
  shows "accounts (snd (removeAccount c account s0))
           = filter (\<lambda>a. account_id a \<noteq> account_id account) (accounts s)
       \<and> account_id account \<notin> account_id ` set (accounts (snd (removeAccount c account s0)))
       \<and> (\<forall>a \<in> set (accounts s). account_id a \<noteq> account_id account
             \<longrightarrow> a \<in> set (accounts (snd (removeAccount c account s0))))"
  using assms
  by (auto simp: removeAccount_def secure_deleteItem_def save_def emitUpdate_def)

theorem removeAccount_drops_every_matching_id_witness:
  "awaitLoadingPromise offline (AccountsStore stored_four vault)
     = (Inr (), snd (getAll offline (AccountsStore stored_four vault)))
   \<and> deleteItem_failure offline (getKeyForAccount offline carol) (login carol) = None
   \<and> accounts (snd (getAll offline (AccountsStore stored_four vault)))
       = [withToken carol [], bob, withToken dave [], alice]
   \<and> accounts (snd (removeAccount offline carol (AccountsStore stored_four vault)))
       = [bob, alice]"
proof -
  have h1: "awaitLoadingPromise offline (AccountsStore stored_four vault)
     = (Inr (), snd (getAll offline (AccountsStore stored_four vault)))"
    by (simp add: scenario_defs run_defs)
  have h2: "deleteItem_failure offline (getKeyForAccount offline carol) (login carol) = None"
    by (simp add: scenario_defs)
  show ?thesis
    using removeAccount_drops_every_matching_id [OF h1 h2] h1 h2
    by (simp add: scenario_defs run_defs)
qed

end
